theory Spec2Isabelle
  imports Main "HOL-Library.Word"
begin

section \<open>The IncidentProof ledger contract\<close>

text \<open>
  The Solidity contract \<^verbatim>\<open>IncidentProof\<close> keeps one \<^verbatim>\<open>Report\<close> struct per 32-byte
  content hash. Solidity's value types are machine words: \<^verbatim>\<open>bytes32\<close> and
  \<^verbatim>\<open>uint256\<close> are 256 bits wide, an \<^verbatim>\<open>address\<close> 160 bits. A Solidity \<^verbatim>\<open>string\<close>
  is its byte sequence, so \<^verbatim>\<open>bytes(s).length > 0\<close> is \<open>s \<noteq> []\<close>.
\<close>

type_synonym bytes32 = "256 word"
type_synonym uint256 = "256 word"
type_synonym address = "160 word"

record Report =
  contentHash :: bytes32
  reporter :: address
  timestamp :: uint256
  status :: string
  exists :: bool

text \<open>An event of the log, with the arguments in the order the contract emits them.\<close>

datatype event =
  ReportSubmitted bytes32 address uint256 string
| StatusUpdated bytes32 string string address

text \<open>
  The storage of the contract: the two mappings it declares, the owner kept by the
  inherited \<^verbatim>\<open>Ownable\<close>, and the events emitted so far. A Solidity mapping is total:
  a key never written reads as the zero value of the struct.
\<close>

record ledger =
  reports :: "bytes32 \<Rightarrow> Report"
  reportsByAddress :: "address \<Rightarrow> bytes32 list"
  owner :: address
  events :: "event list"

definition no_report :: Report where
  "no_report = \<lparr>contentHash = 0, reporter = 0, timestamp = 0, status = [], exists = False\<rparr>"

definition deployed :: "address \<Rightarrow> ledger" where
  \<comment> \<open>the storage right after deployment by \<open>deployer\<close>, who becomes the owner\<close>
  "deployed deployer =
     \<lparr>reports = (\<lambda>_. no_report), reportsByAddress = (\<lambda>_. []), owner = deployer, events = []\<rparr>"

text \<open>A failed \<^verbatim>\<open>require\<close> reverts the transaction with its message.\<close>

datatype revert = Revert string

text \<open>
  \<^verbatim>\<open>submitReport\<close>: the three \<^verbatim>\<open>require\<close>s in the order of the source, then the
  write of the struct, the push onto the sender's list and the event. The arguments
  \<open>sender\<close> and \<open>now\<close> are \<^verbatim>\<open>msg.sender\<close> and \<^verbatim>\<open>block.timestamp\<close>. The
  \<^verbatim>\<open>nonReentrant\<close> guard never trips here: no function of the contract calls out,
  so no call can be entered while another one runs.
\<close>

definition submitReport :: "address \<Rightarrow> uint256 \<Rightarrow> bytes32 \<Rightarrow> string \<Rightarrow> ledger \<Rightarrow> revert + ledger" where
  "submitReport sender now h st L =
     (if h = 0 then Inl (Revert ''Invalid content hash'')
      else if st = [] then Inl (Revert ''Status cannot be empty'')
      else if exists (reports L h) then Inl (Revert ''Report already exists'')
      else Inr (L\<lparr>reports := (reports L)(h :=
                     \<lparr>contentHash = h, reporter = sender, timestamp = now, status = st, exists = True\<rparr>),
                  reportsByAddress := (reportsByAddress L)(sender := reportsByAddress L sender @ [h]),
                  events := events L @ [ReportSubmitted h sender now st]\<rparr>))"

text \<open>\<^verbatim>\<open>getReport\<close>: a view guarded by the \<^verbatim>\<open>reportExists\<close> modifier.\<close>

definition getReport :: "bytes32 \<Rightarrow> ledger \<Rightarrow> revert + (uint256 \<times> string \<times> address)" where
  "getReport h L =
     (if \<not> exists (reports L h) then Inl (Revert ''Report does not exist'')
      else (let report = reports L h in Inr (timestamp report, status report, reporter report)))"

text \<open>
  \<^verbatim>\<open>updateStatus\<close>: the modifiers \<^verbatim>\<open>reportExists\<close> and \<^verbatim>\<open>onlyReporter\<close> run in the
  order they are written, before the body's own \<^verbatim>\<open>require\<close>.
\<close>

definition updateStatus :: "address \<Rightarrow> bytes32 \<Rightarrow> string \<Rightarrow> ledger \<Rightarrow> revert + ledger" where
  "updateStatus sender h newStatus L =
     (if \<not> exists (reports L h) then Inl (Revert ''Report does not exist'')
      else if \<not> (reporter (reports L h) = sender \<or> sender = owner L)
        then Inl (Revert ''Only reporter or owner can update'')
      else if newStatus = [] then Inl (Revert ''Status cannot be empty'')
      else (let previousStatus = status (reports L h) in
            Inr (L\<lparr>reports := (reports L)(h := (reports L h)\<lparr>status := newStatus\<rparr>),
                   events := events L @ [StatusUpdated h previousStatus newStatus sender]\<rparr>)))"

text \<open>
  \<^verbatim>\<open>emergencyUpdateStatus\<close>: \<^verbatim>\<open>onlyOwner\<close> first, then \<^verbatim>\<open>reportExists\<close>; the body
  has no check on the new status. The modifier \<^verbatim>\<open>onlyOwner\<close> belongs to the inherited
  \<^verbatim>\<open>Ownable\<close>; no statement below depends on the text of its message.
\<close>

definition emergencyUpdateStatus :: "address \<Rightarrow> bytes32 \<Rightarrow> string \<Rightarrow> ledger \<Rightarrow> revert + ledger" where
  "emergencyUpdateStatus sender h newStatus L =
     (if sender \<noteq> owner L then Inl (Revert ''Ownable: caller is not the owner'')
      else if \<not> exists (reports L h) then Inl (Revert ''Report does not exist'')
      else (let previousStatus = status (reports L h) in
            Inr (L\<lparr>reports := (reports L)(h := (reports L h)\<lparr>status := newStatus\<rparr>),
                   events := events L @ [StatusUpdated h previousStatus newStatus sender]\<rparr>)))"

definition reportExists :: "bytes32 \<Rightarrow> ledger \<Rightarrow> bool" where
  "reportExists h L = exists (reports L h)"

definition getReportsByAddress :: "address \<Rightarrow> ledger \<Rightarrow> bytes32 list" where
  "getReportsByAddress a L = reportsByAddress L a"

definition getReportCount :: "address \<Rightarrow> ledger \<Rightarrow> nat" where
  "getReportCount a L = length (reportsByAddress L a)"

text \<open>
  A history of the contract is a list of transactions. Besides the three state-changing
  functions of the contract itself, the owner may change through the ownership functions
  inherited from \<^verbatim>\<open>Ownable\<close>; \<open>OwnerChange\<close> stands for any of them and is allowed to
  set any owner, which covers whatever the base contract permits. A transaction that
  reverts leaves the storage as it was.
\<close>

datatype call =
  SubmitReport bytes32 string
| UpdateStatus bytes32 string
| EmergencyUpdateStatus bytes32 string
| OwnerChange address

record transaction =
  tx_sender :: address
  tx_time :: uint256
  tx_call :: call

definition keep :: "ledger \<Rightarrow> revert + ledger \<Rightarrow> ledger" where
  "keep L r = (case r of Inl _ \<Rightarrow> L | Inr L' \<Rightarrow> L')"

fun exec :: "ledger \<Rightarrow> transaction \<Rightarrow> ledger" where
  "exec L t =
     (case tx_call t of
        SubmitReport h st \<Rightarrow> keep L (submitReport (tx_sender t) (tx_time t) h st L)
      | UpdateStatus h st \<Rightarrow> keep L (updateStatus (tx_sender t) h st L)
      | EmergencyUpdateStatus h st \<Rightarrow> keep L (emergencyUpdateStatus (tx_sender t) h st L)
      | OwnerChange a \<Rightarrow> L\<lparr>owner := a\<rparr>)"

definition run :: "ledger \<Rightarrow> transaction list \<Rightarrow> ledger" where
  "run L ts = foldl exec L ts"

section \<open>The Ethereum proof client\<close>

text \<open>
  In the definitions below \<open>hash_string\<close> is the client's \<^verbatim>\<open>contentHash\<close> argument.
  The browser-side class \<^verbatim>\<open>EthereumProof\<close> reaches the contract through the ethers
  library. Model strings are byte sequences, so \<^verbatim>\<open>toUtf8Bytes\<close> only changes the
  type. \<^verbatim>\<open>ethers.keccak256\<close> is a function of the library: the client is modelled for
  an arbitrary function \<open>keccak256\<close> from bytes to 32-byte words. A transaction is
  taken to be mined as soon as it is sent; what the client returns as \<^verbatim>\<open>tx.hash\<close> is
  an opaque handle, so the model returns the ledger the transaction leaves behind.
\<close>

definition toUtf8Bytes :: "string \<Rightarrow> 8 word list" where
  "toUtf8Bytes s = map (\<lambda>c. of_nat (of_char c)) s"

record EthereumProof =
  signer :: "address option"  \<comment> \<open>set by \<^verbatim>\<open>connectWallet\<close>; \<open>None\<close> while no wallet is connected\<close>

datatype client_error =
  Error string         \<comment> \<open>thrown by the client itself\<close>
| CallReverted revert  \<comment> \<open>the contract call reverted\<close>

definition connectWallet :: "address option \<Rightarrow> EthereumProof \<Rightarrow> client_error + (address \<times> EthereumProof)" where
  \<comment> \<open>\<open>wallet\<close> is the account \<^verbatim>\<open>window.ethereum\<close> offers, \<open>None\<close> when there is no wallet\<close>
  "connectWallet wallet c =
     (case wallet of
        None \<Rightarrow> Inl (Error ''MetaMask not found'')
      | Some a \<Rightarrow> Inr (a, c\<lparr>signer := Some a\<rparr>))"

definition submitProof ::
  "(8 word list \<Rightarrow> bytes32) \<Rightarrow> EthereumProof \<Rightarrow> uint256 \<Rightarrow> string \<Rightarrow> string option \<Rightarrow> ledger
     \<Rightarrow> client_error + ledger" where
  \<comment> \<open>the status argument is optional and defaults to \<^verbatim>\<open>"submitted"\<close>\<close>
  "submitProof keccak256 c now hash_string status_arg L =
     (case signer c of
        None \<Rightarrow> Inl (Error ''Wallet not connected'')
      | Some a \<Rightarrow>
          (let st = (case status_arg of None \<Rightarrow> ''submitted'' | Some s \<Rightarrow> s);
               hashBytes = keccak256 (toUtf8Bytes hash_string)
           in case submitReport a now hashBytes st L of
                Inl r \<Rightarrow> Inl (CallReverted r)
              | Inr L' \<Rightarrow> Inr L'))"

text \<open>
  \<^verbatim>\<open>Number(x)\<close> for a non-negative big integer \<open>x\<close>: the nearest double, ties to
  even. Integers of up to 53 bits are kept; a longer one is rounded to 53 significant
  bits. (The largest \<^verbatim>\<open>uint256\<close> is far below the largest double.)
\<close>

fun bit_length :: "nat \<Rightarrow> nat" where
  "bit_length n = (if n = 0 then 0 else Suc (bit_length (n div 2)))"

declare bit_length.simps [simp del]

definition js_Number :: "nat \<Rightarrow> nat" where
  "js_Number n =
     (let b = bit_length n in
      if b \<le> 53 then n
      else (let sh = b - 53;
                q = n div 2 ^ sh;
                r = n mod 2 ^ sh;
                half = 2 ^ (sh - 1);
                q' = (if r > half \<or> (r = half \<and> odd q) then q + 1 else q)
            in q' * 2 ^ sh))"

record ledger_proof =
  proof_timestamp :: nat
  proof_status :: string
  proof_reporter :: address

definition getProof :: "(8 word list \<Rightarrow> bytes32) \<Rightarrow> string \<Rightarrow> ledger \<Rightarrow> client_error + ledger_proof" where
  "getProof keccak256 hash_string L =
     (let hashBytes = keccak256 (toUtf8Bytes hash_string)
      in case getReport hashBytes L of
           Inl r \<Rightarrow> Inl (CallReverted r)
         | Inr (ts, st, rep) \<Rightarrow>
             Inr \<lparr>proof_timestamp = js_Number (unat ts), proof_status = st, proof_reporter = rep\<rparr>)"

definition updateProof ::
  "(8 word list \<Rightarrow> bytes32) \<Rightarrow> EthereumProof \<Rightarrow> string \<Rightarrow> string \<Rightarrow> ledger \<Rightarrow> client_error + ledger" where
  "updateProof keccak256 c hash_string newStatus L =
     (case signer c of
        None \<Rightarrow> Inl (Error ''Wallet not connected'')
      | Some a \<Rightarrow>
          (let hashBytes = keccak256 (toUtf8Bytes hash_string)
           in case updateStatus a hashBytes newStatus L of
                Inl r \<Rightarrow> Inl (CallReverted r)
              | Inr L' \<Rightarrow> Inr L'))"

text \<open>
  A stand-in for the library's hash function in concrete runs: a byte sequence is sent
  to its length plus one.
\<close>

definition length_hash :: "8 word list \<Rightarrow> bytes32" where
  "length_hash bs = 1 + of_nat (length bs)"

section \<open>JavaScript values\<close>

text \<open>
  The gateway and the browser code work on values that come out of JSON request bodies.
  A value is one of the JSON kinds, or \<^verbatim>\<open>undefined\<close> (what reading a missing property
  gives). Numbers are the integers; an object is the list of its properties in the
  order the engine enumerates them, with distinct names. Strings are byte sequences.
\<close>

datatype json =
  JUndefined
| JNull
| JBool bool
| JNum int
| JStr string
| JArr "json list"
| JObj "(string \<times> json) list"



definition js_get :: "json \<Rightarrow> string \<Rightarrow> json" where
  "js_get v k =
     (case v of
        JObj kvs \<Rightarrow> (case map_of kvs k of Some x \<Rightarrow> x | None \<Rightarrow> JUndefined)
      | _ \<Rightarrow> JUndefined)"



subsection \<open>Numbers and strings as text\<close>

definition digit :: "nat \<Rightarrow> char" where
  "digit d = char_of (48 + d)"

fun decimal :: "nat \<Rightarrow> string" where
  "decimal n = (if n < 10 then [digit n] else decimal (n div 10) @ [digit (n mod 10)])"

declare decimal.simps [simp del]

definition number_text :: "int \<Rightarrow> string" where
  "number_text n = (if n < 0 then CHR ''-'' # decimal (nat (- n)) else decimal (nat n))"

definition hex_digit :: "nat \<Rightarrow> char" where
  "hex_digit d = (if d < 10 then char_of (48 + d) else char_of (87 + d))"

text \<open>
  The escapes of \<^verbatim>\<open>JSON.stringify\<close> inside a string: the quote, the backslash, the
  five short escapes, and \<^verbatim>\<open>\u00XX\<close> for the other control characters.
\<close>

definition escape :: "char \<Rightarrow> string" where
  "escape c =
     (if c = CHR 0x22 then [CHR 0x5C, CHR 0x22]
      else if c = CHR 0x5C then [CHR 0x5C, CHR 0x5C]
      else if c = CHR 0x08 then [CHR 0x5C, CHR ''b'']
      else if c = CHR 0x09 then [CHR 0x5C, CHR ''t'']
      else if c = CHR 0x0A then [CHR 0x5C, CHR ''n'']
      else if c = CHR 0x0C then [CHR 0x5C, CHR ''f'']
      else if c = CHR 0x0D then [CHR 0x5C, CHR ''r'']
      else if (of_char c :: nat) < 32
        then [CHR 0x5C, CHR ''u'', CHR ''0'', CHR ''0'',
              hex_digit (of_char c div 16), hex_digit (of_char c mod 16)]
      else [c])"

definition quote :: "string \<Rightarrow> string" where
  "quote s = [CHR 0x22] @ concat (map escape s) @ [CHR 0x22]"

fun join :: "string \<Rightarrow> string list \<Rightarrow> string" where
  "join sep [] = []"
| "join sep [x] = x"
| "join sep (x # y # ys) = x @ sep @ join sep (y # ys)"

text \<open>
  \<^verbatim>\<open>JSON.stringify\<close>: \<^verbatim>\<open>undefined\<close> has no text (\<open>None\<close>); inside an array it is
  written \<^verbatim>\<open>null\<close>, and a property whose value is \<^verbatim>\<open>undefined\<close> is left out.
\<close>

fun stringify :: "json \<Rightarrow> string option"
  and elements :: "json list \<Rightarrow> string list"
  and members :: "(string \<times> json) list \<Rightarrow> string list" where
  "stringify JUndefined = None"
| "stringify JNull = Some ''null''"
| "stringify (JBool b) = Some (if b then ''true'' else ''false'')"
| "stringify (JNum n) = Some (number_text n)"
| "stringify (JStr s) = Some (quote s)"
| "stringify (JArr xs) = Some (''['' @ join '','' (elements xs) @ '']'')"
| "stringify (JObj kvs) = Some (''{'' @ join '','' (members kvs) @ ''}'')"
| "elements [] = []"
| "elements (x # xs) = (case stringify x of None \<Rightarrow> ''null'' | Some s \<Rightarrow> s) # elements xs"
| "members [] = []"
| "members ((k, v) # kvs) =
     (case stringify v of
        None \<Rightarrow> members kvs
      | Some s \<Rightarrow> (quote k @ '':'' @ s) # members kvs)"

definition JSON_stringify :: "json \<Rightarrow> json" where
  "JSON_stringify v = (case stringify v of None \<Rightarrow> JUndefined | Some s \<Rightarrow> JStr s)"

text \<open>
  The string a template literal \<^verbatim>\<open>`...${v}...`\<close> inserts for a value: a string is
  itself, an array is its elements separated by commas (\<^verbatim>\<open>null\<close> and
  \<^verbatim>\<open>undefined\<close> elements are empty), an object is \<^verbatim>\<open>[object Object]\<close>.
\<close>

fun template :: "json \<Rightarrow> string"
  and template_elements :: "json list \<Rightarrow> string list" where
  "template JUndefined = ''undefined''"
| "template JNull = ''null''"
| "template (JBool b) = (if b then ''true'' else ''false'')"
| "template (JNum n) = number_text n"
| "template (JStr s) = s"
| "template (JArr xs) = join '','' (template_elements xs)"
| "template (JObj kvs) = ''[object Object]''"
| "template_elements [] = []"
| "template_elements (x # xs) =
     (case x of JUndefined \<Rightarrow> [] | JNull \<Rightarrow> [] | _ \<Rightarrow> template x) # template_elements xs"





section \<open>The gateway API\<close>

text \<open>
  The gateway is an Express server with three handlers. A handler is modelled from
  the point where Express calls it: the rate limiter, the body parsers and the upload
  filter in front of it have let the request through. Everything a handler touches
  outside its own variables is in the record \<open>world\<close>:
  \<^item> the Redis hashes and lists. A hash is the object \<^verbatim>\<open>hGetAll\<close> returns for it (the
    empty object for a key never written); a field holds the value the client was
    given for it, so the encoding of values on the wire is not part of the model;
  \<^item> the objects of the S3 bucket, by bucket name and key, each the parameters of the
    upload that wrote it;
  \<^item> \<open>faults\<close>: for each call to Redis or S3 still to come, whether it will throw;
    when the list is used up every call succeeds;
  \<^item> \<open>uuids\<close> and \<open>clock\<close>: the values the coming calls of \<^verbatim>\<open>uuidv4()\<close> and
    \<^verbatim>\<open>new Date().toISOString()\<close> return;
  \<^item> the environment variable \<^verbatim>\<open>S3_BUCKET\<close>, and the URL S3 reports for an object.
\<close>

type_synonym bytes = "8 word list"






















section \<open>The browser-side encryption helpers and the report form\<close>

text \<open>
  The class \<^verbatim>\<open>E2EECrypto\<close> is a thin layer over the CryptoJS library. What the
  library computes is not in the repository, so its functions are arguments of the
  model, collected in the record \<open>CryptoJS\<close>; each returns \<open>None\<close> where the
  library call throws. One value of the record stands for the library during one
  submission, random choices included.
  \<^item> \<open>random_hex n\<close> is \<^verbatim>\<open>CryptoJS.lib.WordArray.random(n).toString()\<close>;
  \<^item> \<open>AES_encrypt message passphrase cfg\<close> is \<^verbatim>\<open>CryptoJS.AES.encrypt\<close>, with the
    configuration object either absent or \<^verbatim>\<open>{ mode: CryptoJS.mode.GCM }\<close>; the
    result is read through \<^verbatim>\<open>toString()\<close>, \<^verbatim>\<open>iv?.toString()\<close> and
    \<^verbatim>\<open>salt?.toString()\<close>;
  \<^item> \<open>AES_decrypt ciphertext passphrase cfg\<close> is \<^verbatim>\<open>CryptoJS.AES.decrypt\<close>, with the
    configuration object absent or holding the mode, an iv and a salt; the result is
    a word array, which \<open>Utf8_stringify\<close> (\<^verbatim>\<open>toString(CryptoJS.enc.Utf8)\<close>) decodes;
  \<^item> \<open>Hex_parse\<close> is \<^verbatim>\<open>CryptoJS.enc.Hex.parse\<close> and \<open>SHA256_hex\<close> is
    \<^verbatim>\<open>CryptoJS.SHA256(...).toString()\<close>.
  A digest \<^verbatim>\<open>CryptoJS.SHA3(message, { outputLength: n }).toString()\<close> is kept as the
  term \<open>SHA3 message n\<close>: two digests are equal exactly when message and length are.
\<close>

datatype cipher_cfg = Default_cfg | Mode_GCM | Mode_GCM_iv_salt bytes bytes

record cipher_params =
  cp_text :: string
  cp_iv :: "string option"
  cp_salt :: "string option"

record CryptoJS =
  random_hex :: "nat \<Rightarrow> string option"
  AES_encrypt :: "json \<Rightarrow> string \<Rightarrow> cipher_cfg \<Rightarrow> cipher_params option"
  AES_decrypt :: "json \<Rightarrow> string \<Rightarrow> cipher_cfg \<Rightarrow> bytes option"
  Utf8_stringify :: "bytes \<Rightarrow> string option"
  Hex_parse :: "json \<Rightarrow> bytes option"
  SHA256_hex :: "string \<Rightarrow> string option"

datatype digest = SHA3 json nat

definition generateKey :: "CryptoJS \<Rightarrow> string option" where
  "generateKey lib = random_hex lib (256 div 8)"

definition generateKeyPair :: "CryptoJS \<Rightarrow> (string \<times> string) option" where
  \<comment> \<open>the pair is (\<^verbatim>\<open>privateKey\<close>, \<^verbatim>\<open>publicKey\<close>)\<close>
  "generateKeyPair lib =
     (case random_hex lib (256 div 8) of
        None \<Rightarrow> None
      | Some privateKey \<Rightarrow>
          (case SHA256_hex lib privateKey of
             None \<Rightarrow> None
           | Some publicKey \<Rightarrow> Some (privateKey, publicKey)))"

definition optional :: "string option \<Rightarrow> json" where
  \<comment> \<open>the value of \<^verbatim>\<open>x?.toString()\<close>\<close>
  "optional s = (case s of None \<Rightarrow> JUndefined | Some x \<Rightarrow> JStr x)"

definition encryptReport :: "CryptoJS \<Rightarrow> json \<Rightarrow> string \<Rightarrow> json option" where
  "encryptReport lib data key =
     (case AES_encrypt lib (JSON_stringify data) key Mode_GCM of
        None \<Rightarrow> None
      | Some encrypted \<Rightarrow>
          Some (JObj [(''ciphertext'', JStr (cp_text encrypted)),
                      (''iv'', optional (cp_iv encrypted)),
                      (''salt'', optional (cp_salt encrypted))]))"

text \<open>
  \<^verbatim>\<open>decryptReport\<close>: the two \<^verbatim>\<open>Hex.parse\<close> calls of the configuration object come
  first, then the decryption, the decoding and \<^verbatim>\<open>JSON.parse\<close> (an argument, as for
  the status handler).
\<close>

definition decryptReport ::
  "CryptoJS \<Rightarrow> (json \<Rightarrow> json option) \<Rightarrow> json \<Rightarrow> string \<Rightarrow> json option" where
  "decryptReport lib JSON_parse encryptedData key =
     (case Hex_parse lib (js_get encryptedData ''iv'') of
        None \<Rightarrow> None
      | Some iv \<Rightarrow>
         (case Hex_parse lib (js_get encryptedData ''salt'') of
            None \<Rightarrow> None
          | Some salt \<Rightarrow>
             (case AES_decrypt lib (js_get encryptedData ''ciphertext'') key (Mode_GCM_iv_salt iv salt) of
                None \<Rightarrow> None
              | Some decrypted \<Rightarrow>
                 (case Utf8_stringify lib decrypted of
                    None \<Rightarrow> None
                  | Some text \<Rightarrow> JSON_parse (JStr text)))))"

definition wrapKey :: "CryptoJS \<Rightarrow> string \<Rightarrow> string \<Rightarrow> string option" where
  "wrapKey lib symmetricKey recipientPublicKey =
     (case AES_encrypt lib (JStr symmetricKey) recipientPublicKey Default_cfg of
        None \<Rightarrow> None
      | Some encrypted \<Rightarrow> Some (cp_text encrypted))"

definition unwrapKey :: "CryptoJS \<Rightarrow> json \<Rightarrow> string \<Rightarrow> string option" where
  "unwrapKey lib wrappedKey privateKey =
     (case AES_decrypt lib wrappedKey privateKey Default_cfg of
        None \<Rightarrow> None
      | Some decrypted \<Rightarrow> Utf8_stringify lib decrypted)"

definition hashContent :: "json \<Rightarrow> digest" where
  "hashContent content = SHA3 (JSON_stringify content) 256"

text \<open>
  \<^verbatim>\<open>handleSubmit\<close> of the report form, up to the call of \<^verbatim>\<open>onSubmit(payload)\<close>: the
  result is the payload handed over, or \<open>None\<close> when a step threw and the handler
  reported the failure instead. \<open>ethProof\<close> is \<open>None\<close> while no wallet is
  connected; otherwise it is the client's \<^verbatim>\<open>submitProof\<close>, which returns the
  transaction hash or throws (\<open>None\<close>), and a throw only leaves \<^verbatim>\<open>ethTxHash\<close> unset.
\<close>

record payload =
  p_encryptedData :: json
  p_wrappedKey :: string
  p_contentHash :: digest
  p_files :: json
  p_ethTxHash :: "string option"

definition handleSubmit ::
  "CryptoJS \<Rightarrow> (digest \<Rightarrow> string option) option \<Rightarrow> json \<Rightarrow> payload option" where
  "handleSubmit lib ethProof formData =
     (case generateKey lib of
        None \<Rightarrow> None
      | Some reportKey \<Rightarrow>
         (let recipientPubKey = ''demo-recipient-key'' in
          case encryptReport lib formData reportKey of
            None \<Rightarrow> None
          | Some encryptedReport \<Rightarrow>
             (case wrapKey lib reportKey recipientPubKey of
                None \<Rightarrow> None
              | Some wrappedKey \<Rightarrow>
                 (let hash = hashContent encryptedReport;
                      payload = \<lparr>p_encryptedData = encryptedReport,
                                 p_wrappedKey = wrappedKey,
                                 p_contentHash = hash,
                                 p_files = js_get formData ''files'',
                                 p_ethTxHash = None\<rparr>
                  in case ethProof of
                       None \<Rightarrow> Some payload
                     | Some submit \<Rightarrow>
                         (case submit hash of
                            None \<Rightarrow> Some payload
                          | Some txHash \<Rightarrow> Some (payload\<lparr>p_ethTxHash := Some txHash\<rparr>))))))"

section \<open>Concrete inputs\<close>











text \<open>
  A library whose encryption always returns the same ciphertext and iv with the given
  salt (its other functions are not called here and throw), and a ledger client whose every submission returns the same transaction hash.
\<close>

definition example_ledger_client :: "digest \<Rightarrow> string option" where
  "example_ledger_client d = Some ''0xabc''"

definition example_lib :: "string \<Rightarrow> CryptoJS" where
  "example_lib salt =
     \<lparr>random_hex = (\<lambda>n. Some ''00ff''),
      AES_encrypt = (\<lambda>m k c. Some \<lparr>cp_text = ''AB12'', cp_iv = Some ''00'', cp_salt = Some salt\<rparr>),
      AES_decrypt = (\<lambda>c k cfg. None),
      Utf8_stringify = (\<lambda>b. None),
      Hex_parse = (\<lambda>v. None),
      SHA256_hex = (\<lambda>s. None)\<rparr>"

section \<open>Properties of the ledger contract\<close>

text \<open>
  Once a report exists for a hash, no transaction removes it or changes who submitted
  it and when: only the status field is ever rewritten.
\<close>

lemma exec_keeps_anchor:
  assumes "exists (reports L h)"
  shows "exists (reports (exec L t) h)
       \<and> reporter (reports (exec L t) h) = reporter (reports L h)
       \<and> timestamp (reports (exec L t) h) = timestamp (reports L h)"
  using assms
  by (cases "tx_call t")
     (auto simp: keep_def submitReport_def updateStatus_def emergencyUpdateStatus_def Let_def)

lemma run_keeps_anchor:
  assumes "exists (reports L h)"
  shows "exists (reports (run L ts) h)
       \<and> reporter (reports (run L ts) h) = reporter (reports L h)
       \<and> timestamp (reports (run L ts) h) = timestamp (reports L h)"
  using assms
proof (induction ts arbitrary: L)
  case Nil
  then show ?case by (simp add: run_def)
next
  case (Cons t ts)
  have e: "exists (reports (exec L t) h)"
    using exec_keeps_anchor [OF Cons.prems] by simp
  have "run L (t # ts) = run (exec L t) ts" by (simp add: run_def)
  then show ?case
    using Cons.IH [OF e] exec_keeps_anchor [OF Cons.prems, of t] by simp
qed

lemma submitReport_written:
  assumes "submitReport a t h s L = Inr L1"
  shows "reports L1 h = \<lparr>contentHash = h, reporter = a, timestamp = t, status = s, exists = True\<rparr>"
  using assms by (auto simp: submitReport_def split: if_splits)

text \<open>
  Claim C7, as the contract has it. Let \<^verbatim>\<open>submitReport(h, s)\<close> sent by \<open>a\<close> at time
  \<open>t\<close> have succeeded, and let any history \<open>ts\<close> of further transactions follow
  (it may contain further attempts to anchor \<open>h\<close>). Then a \<^verbatim>\<open>submitReport\<close> for the
  same hash from any sender \<open>b\<close> reverts: with \<^verbatim>\<open>Report already exists\<close> when its
  status argument is not empty, and with \<^verbatim>\<open>Status cannot be empty\<close> when it is,
  because that check comes first. \<^verbatim>\<open>getReport(h)\<close> returns the first submitter and
  the first timestamp after every such history, and the submitted status right after
  the first call.
\<close>

theorem anchor_once:
  assumes "submitReport a t h s L = Inr L1"
  shows "submitReport b t' h s' (run L1 ts) =
           Inl (Revert (if s' = [] then ''Status cannot be empty'' else ''Report already exists''))
       \<and> getReport h L1 = Inr (t, s, a)
       \<and> (\<exists>st. getReport h (run L1 ts) = Inr (t, st, a))"
proof -
  have w: "reports L1 h = \<lparr>contentHash = h, reporter = a, timestamp = t, status = s, exists = True\<rparr>"
    by (rule submitReport_written [OF assms])
  have nz: "h \<noteq> 0" using assms by (auto simp: submitReport_def split: if_splits)
  have e: "exists (reports L1 h)" using w by simp
  have k: "exists (reports (run L1 ts) h)"
          "reporter (reports (run L1 ts) h) = a"
          "timestamp (reports (run L1 ts) h) = t"
    using run_keeps_anchor [OF e, of ts] w by simp_all
  show ?thesis
    using nz w k by (simp add: submitReport_def getReport_def Let_def)
qed

text \<open>
  The theorem at a concrete history: account 1 anchors hash 5 on a fresh contract and
  updates its status; account 2 then tries to anchor the same hash.
\<close>

theorem anchor_once_witness:
  "submitReport 1 100 5 ''submitted'' (deployed 9) =
     Inr (exec (deployed 9) \<lparr>tx_sender = 1, tx_time = 100, tx_call = SubmitReport 5 ''submitted''\<rparr>)
   \<and> submitReport 2 200 5 ''submitted''
        (run (exec (deployed 9) \<lparr>tx_sender = 1, tx_time = 100, tx_call = SubmitReport 5 ''submitted''\<rparr>)
             [\<lparr>tx_sender = 1, tx_time = 150, tx_call = UpdateStatus 5 ''processing''\<rparr>])
      = Inl (Revert ''Report already exists'')
   \<and> getReport 5
        (run (exec (deployed 9) \<lparr>tx_sender = 1, tx_time = 100, tx_call = SubmitReport 5 ''submitted''\<rparr>)
             [\<lparr>tx_sender = 1, tx_time = 150, tx_call = UpdateStatus 5 ''processing''\<rparr>])
      = Inr (100, ''processing'', 1)"
proof -
  have h: "submitReport 1 100 5 ''submitted'' (deployed 9) =
     Inr (exec (deployed 9) \<lparr>tx_sender = 1, tx_time = 100, tx_call = SubmitReport 5 ''submitted''\<rparr>)"
    by (simp add: submitReport_def deployed_def no_report_def keep_def)
  have g: "getReport 5
        (run (exec (deployed 9) \<lparr>tx_sender = 1, tx_time = 100, tx_call = SubmitReport 5 ''submitted''\<rparr>)
             [\<lparr>tx_sender = 1, tx_time = 150, tx_call = UpdateStatus 5 ''processing''\<rparr>])
      = Inr (100, ''processing'', 1)"
    by (simp add: run_def submitReport_def updateStatus_def getReport_def deployed_def
                  no_report_def keep_def Let_def)
  show ?thesis
    using h g anchor_once [OF h, of 2 200 "''submitted''"
        "[\<lparr>tx_sender = 1, tx_time = 150, tx_call = UpdateStatus 5 ''processing''\<rparr>]"]
    by simp
qed

text \<open>
  Claim C7 as it is worded fails for a second call that carries the empty status:
  account 1 anchors hash 5, account 2 calls \<^verbatim>\<open>submitReport(5, "")\<close>, and the revert is
  \<^verbatim>\<open>Status cannot be empty\<close>, not the duplicate error.
\<close>

theorem anchor_empty_status_counterexample:
  "submitReport 1 100 5 ''submitted'' (deployed 9) =
     Inr (exec (deployed 9) \<lparr>tx_sender = 1, tx_time = 100, tx_call = SubmitReport 5 ''submitted''\<rparr>)
   \<and> submitReport 2 200 5 []
        (exec (deployed 9) \<lparr>tx_sender = 1, tx_time = 100, tx_call = SubmitReport 5 ''submitted''\<rparr>)
      = Inl (Revert ''Status cannot be empty'')
   \<and> submitReport 2 200 5 []
        (exec (deployed 9) \<lparr>tx_sender = 1, tx_time = 100, tx_call = SubmitReport 5 ''submitted''\<rparr>)
      \<noteq> Inl (Revert ''Report already exists'')"
  by (simp add: submitReport_def deployed_def no_report_def keep_def)

section \<open>Properties of the Ethereum proof client\<close>

lemma bit_length_le: "bit_length n \<le> k \<longleftrightarrow> n < 2 ^ k"
proof (induction n arbitrary: k rule: bit_length.induct)
  case (1 n)
  show ?case
  proof (cases "n = 0")
    case True
    then show ?thesis by (simp add: bit_length.simps)
  next
    case False
    show ?thesis
    proof (cases k)
      case 0
      then show ?thesis using False by (simp add: bit_length.simps)
    next
      case (Suc j)
      have "bit_length n \<le> Suc j \<longleftrightarrow> bit_length (n div 2) \<le> j"
        using False by (simp add: bit_length.simps [of n])
      also have "\<dots> \<longleftrightarrow> n div 2 < 2 ^ j"
        using "1.IH" [OF False] by simp
      also have "\<dots> \<longleftrightarrow> n < 2 ^ Suc j"
        by auto
      finally show ?thesis using Suc by simp
    qed
  qed
qed

lemma js_Number_exact: "n < 2 ^ 53 \<Longrightarrow> js_Number n = n"
  by (simp add: js_Number_def bit_length_le)

lemma submitProof_calls:
  assumes "submitProof k c now H sopt L = Inr L'"
  shows "\<exists>a. signer c = Some a
           \<and> submitReport a now (k (toUtf8Bytes H))
                (case sopt of None \<Rightarrow> ''submitted'' | Some s \<Rightarrow> s) L = Inr L'"
  using assms by (auto simp: submitProof_def Let_def split: option.splits sum.splits)

text \<open>
  Claim C10. Whatever function \<open>keccak256\<close> is, the three client operations address the
  ledger by \<open>keccak256 (toUtf8Bytes H)\<close>. After a successful \<^verbatim>\<open>submitProof(H, s)\<close> from
  the connected wallet \<open>a\<close>, the contract holds the record under that key,
  \<^verbatim>\<open>getProof(H)\<close> returns the status \<open>s\<close> (\<^verbatim>\<open>"submitted"\<close> by default), the
  address \<open>a\<close> and the block time as a JavaScript number, and an
  \<^verbatim>\<open>updateProof(H, s2)\<close> from the same wallet either fails because \<open>s2\<close> is empty
  or makes \<^verbatim>\<open>getProof(H)\<close> return \<open>s2\<close>.
\<close>

theorem client_hash_key:
  assumes "submitProof keccak256 c now H sopt L = Inr L'"
  shows "\<exists>a. signer c = Some a
     \<and> getProof keccak256 H L' =
         Inr \<lparr>proof_timestamp = js_Number (unat now),
              proof_status = (case sopt of None \<Rightarrow> ''submitted'' | Some s \<Rightarrow> s),
              proof_reporter = a\<rparr>
     \<and> reports L' (keccak256 (toUtf8Bytes H)) =
         \<lparr>contentHash = keccak256 (toUtf8Bytes H), reporter = a, timestamp = now,
          status = (case sopt of None \<Rightarrow> ''submitted'' | Some s \<Rightarrow> s), exists = True\<rparr>
     \<and> (case updateProof keccak256 c H s2 L' of
           Inl e \<Rightarrow> s2 = [] \<and> e = CallReverted (Revert ''Status cannot be empty'')
         | Inr L2 \<Rightarrow> getProof keccak256 H L2 =
             Inr \<lparr>proof_timestamp = js_Number (unat now), proof_status = s2, proof_reporter = a\<rparr>)"
proof -
  obtain a where a: "signer c = Some a"
    and s: "submitReport a now (keccak256 (toUtf8Bytes H))
              (case sopt of None \<Rightarrow> ''submitted'' | Some s \<Rightarrow> s) L = Inr L'"
    using submitProof_calls [OF assms] by blast
  have w: "reports L' (keccak256 (toUtf8Bytes H)) =
         \<lparr>contentHash = keccak256 (toUtf8Bytes H), reporter = a, timestamp = now,
          status = (case sopt of None \<Rightarrow> ''submitted'' | Some s \<Rightarrow> s), exists = True\<rparr>"
    by (rule submitReport_written [OF s])
  have g: "getProof keccak256 H L' =
         Inr \<lparr>proof_timestamp = js_Number (unat now),
              proof_status = (case sopt of None \<Rightarrow> ''submitted'' | Some s \<Rightarrow> s),
              proof_reporter = a\<rparr>"
    using w by (simp add: getProof_def getReport_def Let_def)
  have u: "(case updateProof keccak256 c H s2 L' of
           Inl e \<Rightarrow> s2 = [] \<and> e = CallReverted (Revert ''Status cannot be empty'')
         | Inr L2 \<Rightarrow> getProof keccak256 H L2 =
             Inr \<lparr>proof_timestamp = js_Number (unat now), proof_status = s2, proof_reporter = a\<rparr>)"
    using w a by (simp add: updateProof_def updateStatus_def getProof_def getReport_def Let_def)
  show ?thesis using a w g u by blast
qed

text \<open>
  The theorem at a concrete input: wallet 1 submits the hash string \<^verbatim>\<open>"H"\<close> with the
  default status to a fresh contract, with \<open>length_hash\<close> for the library's function.
\<close>

theorem client_hash_key_witness:
  "submitProof length_hash \<lparr>signer = Some 1\<rparr> 100 ''H'' None (deployed 9) =
     Inr (exec (deployed 9) \<lparr>tx_sender = 1, tx_time = 100, tx_call = SubmitReport 2 ''submitted''\<rparr>)
   \<and> getProof length_hash ''H''
        (exec (deployed 9) \<lparr>tx_sender = 1, tx_time = 100, tx_call = SubmitReport 2 ''submitted''\<rparr>) =
     Inr \<lparr>proof_timestamp = 100, proof_status = ''submitted'', proof_reporter = 1\<rparr>"
proof -
  have h: "submitProof length_hash \<lparr>signer = Some 1\<rparr> 100 ''H'' None (deployed 9) =
     Inr (exec (deployed 9) \<lparr>tx_sender = 1, tx_time = 100, tx_call = SubmitReport 2 ''submitted''\<rparr>)"
    by (simp add: submitProof_def length_hash_def toUtf8Bytes_def submitReport_def deployed_def
                  no_report_def keep_def Let_def)
  have n: "js_Number (unat (100 :: uint256)) = 100"
    by (simp add: js_Number_exact)
  show ?thesis
    using h n client_hash_key [OF h, of "[]"] by simp
qed

section \<open>Properties of the gateway\<close>

subsection \<open>Objects, digits and fault-free calls\<close>












lemma js_get_Nil: "js_get (JObj []) k = JUndefined"
  by (simp add: js_get_def)

lemma js_get_Cons: "js_get (JObj ((k, v) # kvs)) k' = (if k' = k then v else js_get (JObj kvs) k')"
  by (simp add: js_get_def)






subsection \<open>The handlers when no call fails\<close>






subsection \<open>The concrete worlds\<close>







subsection \<open>Submission and the first status query\<close>




subsection \<open>Result callbacks\<close>










subsection \<open>Attachments\<close>












section \<open>Properties of the content hash\<close>

text \<open>
  Claim C5, as the form has it. Whenever \<^verbatim>\<open>handleSubmit\<close> hands over a payload, its
  \<^verbatim>\<open>encryptedData\<close> is the object of the three fields \<^verbatim>\<open>ciphertext\<close>, \<^verbatim>\<open>iv\<close> and
  \<^verbatim>\<open>salt\<close> that \<^verbatim>\<open>encryptReport\<close> returned, and its \<^verbatim>\<open>contentHash\<close> is the SHA3-256
  digest of the JSON text of that whole object. The hash is a function of the encrypted
  report alone: two payloads with the same \<^verbatim>\<open>encryptedData\<close> carry the same hash,
  whatever the form contents, the library's choices, the wrapped key and the ledger
  client were.
\<close>

theorem hash_covers_encrypted_report:
  assumes "handleSubmit lib ethProof formData = Some p"
  shows "(\<exists>c i s. p_encryptedData p = JObj [(''ciphertext'', JStr c), (''iv'', i), (''salt'', s)]
           \<and> p_contentHash p =
               SHA3 (JSON_stringify (JObj [(''ciphertext'', JStr c), (''iv'', i), (''salt'', s)])) 256)
       \<and> p_contentHash p = hashContent (p_encryptedData p)
       \<and> (\<forall>lib' ethProof' formData' p'.
             handleSubmit lib' ethProof' formData' = Some p'
             \<and> p_encryptedData p' = p_encryptedData p
             \<longrightarrow> p_contentHash p' = p_contentHash p)"
proof -
  have h: "\<And>l e f q. handleSubmit l e f = Some q \<Longrightarrow> p_contentHash q = hashContent (p_encryptedData q)"
    by (auto simp: handleSubmit_def Let_def split: option.splits)
  have "\<exists>c i s. p_encryptedData p = JObj [(''ciphertext'', JStr c), (''iv'', i), (''salt'', s)]"
    using assms
    by (auto simp: handleSubmit_def encryptReport_def Let_def split: option.splits)
  then show ?thesis
    using h [OF assms] h by (auto simp: hashContent_def)
qed

text \<open>The theorem for the library that always returns the same ciphertext, iv and salt.\<close>

theorem hash_covers_encrypted_report_witness:
  "handleSubmit (example_lib ''01'') None (JObj [(''title'', JStr ''t'')]) =
     Some \<lparr>p_encryptedData = JObj [(''ciphertext'', JStr ''AB12''), (''iv'', JStr ''00''), (''salt'', JStr ''01'')],
           p_wrappedKey = ''AB12'',
           p_contentHash = hashContent (JObj [(''ciphertext'', JStr ''AB12''), (''iv'', JStr ''00''), (''salt'', JStr ''01'')]),
           p_files = JUndefined,
           p_ethTxHash = None\<rparr>
   \<and> hashContent (JObj [(''ciphertext'', JStr ''AB12''), (''iv'', JStr ''00''), (''salt'', JStr ''01'')]) =
       SHA3 (JSON_stringify (JObj [(''ciphertext'', JStr ''AB12''), (''iv'', JStr ''00''), (''salt'', JStr ''01'')])) 256
   \<and> handleSubmit (example_lib ''01'') (Some example_ledger_client) (JObj [(''title'', JStr ''u'')]) =
     Some \<lparr>p_encryptedData = JObj [(''ciphertext'', JStr ''AB12''), (''iv'', JStr ''00''), (''salt'', JStr ''01'')],
           p_wrappedKey = ''AB12'',
           p_contentHash = hashContent (JObj [(''ciphertext'', JStr ''AB12''), (''iv'', JStr ''00''), (''salt'', JStr ''01'')]),
           p_files = JUndefined,
           p_ethTxHash = Some ''0xabc''\<rparr>"
proof -
  have a: "handleSubmit (example_lib ''01'') None (JObj [(''title'', JStr ''t'')]) =
     Some \<lparr>p_encryptedData = JObj [(''ciphertext'', JStr ''AB12''), (''iv'', JStr ''00''), (''salt'', JStr ''01'')],
           p_wrappedKey = ''AB12'',
           p_contentHash = hashContent (JObj [(''ciphertext'', JStr ''AB12''), (''iv'', JStr ''00''), (''salt'', JStr ''01'')]),
           p_files = JUndefined,
           p_ethTxHash = None\<rparr>"
    by (simp add: handleSubmit_def example_lib_def generateKey_def encryptReport_def wrapKey_def
                  optional_def js_get_Cons js_get_Nil Let_def)
  let ?p = "\<lparr>p_encryptedData = JObj [(''ciphertext'', JStr ''AB12''), (''iv'', JStr ''00''), (''salt'', JStr ''01'')],
           p_wrappedKey = ''AB12'',
           p_contentHash = hashContent (JObj [(''ciphertext'', JStr ''AB12''), (''iv'', JStr ''00''), (''salt'', JStr ''01'')]),
           p_files = JUndefined,
           p_ethTxHash = None\<rparr>"
  obtain q where b: "handleSubmit (example_lib ''01'') (Some example_ledger_client)
                       (JObj [(''title'', JStr ''u'')]) = Some q"
    and q: "p_encryptedData q = p_encryptedData ?p" "p_wrappedKey q = ''AB12''"
           "p_files q = JUndefined" "p_ethTxHash q = Some ''0xabc''"
    by (simp add: handleSubmit_def example_lib_def example_ledger_client_def generateKey_def
                  encryptReport_def wrapKey_def optional_def js_get_Cons js_get_Nil Let_def)
  from hash_covers_encrypted_report [OF a]
  have "handleSubmit (example_lib ''01'') (Some example_ledger_client) (JObj [(''title'', JStr ''u'')]) = Some q
          \<and> p_encryptedData q = p_encryptedData ?p \<longrightarrow> p_contentHash q = p_contentHash ?p"
    by blast
  then have "p_contentHash q = p_contentHash ?p"
    using b q(1) by simp
  then have "q = \<lparr>p_encryptedData = JObj [(''ciphertext'', JStr ''AB12''), (''iv'', JStr ''00''), (''salt'', JStr ''01'')],
           p_wrappedKey = ''AB12'',
           p_contentHash = hashContent (JObj [(''ciphertext'', JStr ''AB12''), (''iv'', JStr ''00''), (''salt'', JStr ''01'')]),
           p_files = JUndefined,
           p_ethTxHash = Some ''0xabc''\<rparr>"
    using q by simp
  then show ?thesis
    using a b hash_covers_encrypted_report [OF a] by simp
qed

text \<open>
  Claim C5 as it is worded fails: two encrypted reports with the same ciphertext and
  different salts have different content hashes, and neither hash is the hash of the
  ciphertext alone.
\<close>

theorem hash_beyond_ciphertext_counterexample:
  "hashContent (JObj [(''ciphertext'', JStr ''AB12''), (''iv'', JStr ''00''), (''salt'', JStr ''01'')])
     \<noteq> hashContent (JObj [(''ciphertext'', JStr ''AB12''), (''iv'', JStr ''00''), (''salt'', JStr ''02'')])
   \<and> hashContent (JObj [(''ciphertext'', JStr ''AB12''), (''iv'', JStr ''00''), (''salt'', JStr ''01'')])
     \<noteq> hashContent (JStr ''AB12'')
   \<and> map_option p_contentHash (handleSubmit (example_lib ''01'') None (JObj [(''title'', JStr ''t'')]))
     \<noteq> map_option p_contentHash (handleSubmit (example_lib ''02'') None (JObj [(''title'', JStr ''t'')]))
   \<and> map_option p_encryptedData (handleSubmit (example_lib ''01'') None (JObj [(''title'', JStr ''t'')]))
     = Some (JObj [(''ciphertext'', JStr ''AB12''), (''iv'', JStr ''00''), (''salt'', JStr ''01'')])
   \<and> map_option p_encryptedData (handleSubmit (example_lib ''02'') None (JObj [(''title'', JStr ''t'')]))
     = Some (JObj [(''ciphertext'', JStr ''AB12''), (''iv'', JStr ''00''), (''salt'', JStr ''02'')])"
  by (simp add: hashContent_def JSON_stringify_def quote_def escape_def
                handleSubmit_def example_lib_def generateKey_def encryptReport_def wrapKey_def
                optional_def js_get_Cons js_get_Nil Let_def)

end
